theory Spec2Isabelle
  imports Main "HOL-Library.Word"
begin

section \<open>JavaScript strings\<close>

text \<open>
  A JavaScript string is a sequence of UTF-16 code units, and \<open>indexOf\<close>,
  \<open>substring\<close>, \<open>replace\<close> and \<open>trim\<close> all count and compare code units. The arrow
  U+2192 that the filter searches for is one code unit, as is every character that
  \<open>trim\<close> removes, so a string is modelled as a list of 16-bit words.
  \<open>lit\<close> writes an ASCII literal of the source as its code units.
\<close>

type_synonym jschar = "16 word"

type_synonym jsstring = "jschar list"

definition lit :: "string \<Rightarrow> jsstring" where
  "lit s = map (\<lambda>c. of_nat (of_char c)) s"

definition ARROW :: jschar where
  "ARROW = 0x2192"

definition LF :: jschar where
  "LF = 0x0A"

text \<open>
  \<open>s.indexOf(pat)\<close>: the least position at which \<open>pat\<close> occurs in \<open>s\<close>, and \<open>-1\<close>
  when it occurs nowhere. \<open>indexOf_from\<close> carries the position of the suffix it looks at.
\<close>

definition startsWith :: "jsstring \<Rightarrow> jsstring \<Rightarrow> bool" where
  "startsWith s pat = (take (length pat) s = pat)"

fun indexOf_from :: "int \<Rightarrow> jsstring \<Rightarrow> jsstring \<Rightarrow> int" where
  "indexOf_from i [] pat = (if pat = [] then i else - 1)"
| "indexOf_from i (c # cs) pat =
     (if startsWith (c # cs) pat then i else indexOf_from (i + 1) cs pat)"

definition indexOf :: "jsstring \<Rightarrow> jsstring \<Rightarrow> int" where
  "indexOf s pat = indexOf_from 0 s pat"

text \<open>
  \<open>s.substring(start)\<close> with one argument: a negative start counts as 0, a start beyond
  the end as the length, and the result runs to the end of the string.
\<close>

definition substring :: "jsstring \<Rightarrow> int \<Rightarrow> jsstring" where
  "substring s start =
     (let len = int (length s);
          from = (if start < 0 then 0 else if len < start then len else start)
      in drop (nat from) s)"

text \<open>\<open>s.replace(/\n/g, '')\<close>: every line feed is removed.\<close>

definition replace_newlines :: "jsstring \<Rightarrow> jsstring" where
  "replace_newlines s = filter (\<lambda>c. c \<noteq> LF) s"

text \<open>
  \<open>s.trim()\<close> removes the code units of ECMAScript's WhiteSpace and LineTerminator
  productions from both ends.
\<close>

definition isWhiteSpace :: "jschar \<Rightarrow> bool" where
  "isWhiteSpace c =
     (c = 0x09 \<or> c = 0x0A \<or> c = 0x0B \<or> c = 0x0C \<or> c = 0x0D \<or> c = 0x20 \<or> c = 0xA0
      \<or> c = 0x1680 \<or> (0x2000 \<le> c \<and> c \<le> 0x200A) \<or> c = 0x2028 \<or> c = 0x2029
      \<or> c = 0x202F \<or> c = 0x205F \<or> c = 0x3000 \<or> c = 0xFEFF)"

definition trim :: "jsstring \<Rightarrow> jsstring" where
  "trim s = rev (dropWhile isWhiteSpace (rev (dropWhile isWhiteSpace s)))"

section \<open>The exception filter\<close>

text \<open>
  The two mapping types are objects used as dictionaries from error codes to values; they
  are modelled by their own enumerable properties, a partial function on strings, and
  \<open>obj[key]\<close> by the lookup in it, with \<open>None\<close> for \<open>undefined\<close>. Error codes are
  the client library's codes (a P and digits), so the names that every object inherits
  from \<open>Object.prototype\<close> are left out of the model.
  Status codes are only stored, looked up and copied, so they are integers here.
\<close>

type_synonym ErrorCodesStatusMapping = "jsstring \<rightharpoonup> int"

type_synonym ErrorCodesMessageMapping = "jsstring \<rightharpoonup> jsstring"

record PrismaClientKnownRequestError =
  code :: jsstring
  message :: jsstring

text \<open>
  The host is read through \<open>getType()\<close> only. The body \<open>{ statusCode, message }\<close> of the
  transport error has its second field named \<open>body_message\<close>, apart from the message of
  the intercepted error; \<open>None\<close> is JavaScript's \<open>undefined\<close>.
\<close>

record ArgumentsHost =
  getType :: jsstring

record ResponseBody =
  statusCode :: "int option"
  body_message :: jsstring

record HttpException =
  response :: ResponseBody
  status :: "int option"

text \<open>
  The server handle \<open>applicationRef\<close> is only handed to the base class; its type is left
  open.
\<close>

typedecl HttpServer

record PrismaClientExceptionFilter =
  applicationRef :: "HttpServer option"
  errorCodesStatusMapping :: ErrorCodesStatusMapping
  errorCodesMessageMapping :: ErrorCodesMessageMapping

text \<open>
  Modelled from the spec: the members of the enumeration \<open>HttpStatus\<close> of the web
  framework, which the sources import and do not declare; the spec gives
  400 (bad request), 409 (conflict) and 404 (not found).
\<close>

definition BAD_REQUEST :: int where
  "BAD_REQUEST = 400"

definition CONFLICT :: int where
  "CONFLICT = 409"

definition NOT_FOUND :: int where
  "NOT_FOUND = 404"

text \<open>The initialisers of the two private fields.\<close>

definition default_errorCodesStatusMapping :: ErrorCodesStatusMapping where
  "default_errorCodesStatusMapping =
     [lit ''P2000'' \<mapsto> BAD_REQUEST, lit ''P2002'' \<mapsto> CONFLICT, lit ''P2025'' \<mapsto> NOT_FOUND]"

definition default_errorCodesMessageMapping :: ErrorCodesMessageMapping where
  "default_errorCodesMessageMapping = Map.empty"

text \<open>
  \<open>Object.assign(target, source)\<close> sets every property of the source on the target and
  leaves the other properties of the target as they are.
\<close>

definition Object_assign :: "('k \<rightharpoonup> 'v) \<Rightarrow> ('k \<rightharpoonup> 'v) \<Rightarrow> ('k \<rightharpoonup> 'v)" where
  "Object_assign target source =
     (\<lambda>k. case source k of Some v \<Rightarrow> Some v | None \<Rightarrow> target k)"

text \<open>
  The constructor. An argument that is \<open>null\<close> or left out is \<open>None\<close>; any object, also
  an empty one, is truthy and is merged.
\<close>

definition constructor ::
  "HttpServer option \<Rightarrow> ErrorCodesStatusMapping option \<Rightarrow> ErrorCodesMessageMapping option
     \<Rightarrow> PrismaClientExceptionFilter" where
  "constructor ref statusOverride messageOverride =
     (let this0 = \<lparr>applicationRef = ref,
                    errorCodesStatusMapping = default_errorCodesStatusMapping,
                    errorCodesMessageMapping = default_errorCodesMessageMapping\<rparr>;
          this1 = (case statusOverride of
                     None \<Rightarrow> this0
                   | Some m \<Rightarrow> this0\<lparr>errorCodesStatusMapping :=
                                Object_assign (errorCodesStatusMapping this0) m\<rparr>);
          this2 = (case messageOverride of
                     None \<Rightarrow> this1
                   | Some m \<Rightarrow> this1\<lparr>errorCodesMessageMapping :=
                                Object_assign (errorCodesMessageMapping this1) m\<rparr>)
      in this2)"

text \<open>
  \<open>defaultExceptionMessage\<close>: the text from the first arrow on, of that the text from
  its first line feed on, without line feeds, trimmed, after the code in brackets.
\<close>

definition defaultExceptionMessage :: "PrismaClientKnownRequestError \<Rightarrow> jsstring" where
  "defaultExceptionMessage exception =
     (let shortMessage = substring (message exception) (indexOf (message exception) [ARROW])
      in lit ''['' @ code exception @ lit '']: '' @
         trim (replace_newlines (substring shortMessage (indexOf shortMessage [LF]))))"

text \<open>
  \<open>a || b\<close> for a string or \<open>undefined\<close> on the left: \<open>undefined\<close> and the empty
  string are falsy.
\<close>

definition logical_or :: "jsstring option \<Rightarrow> jsstring \<Rightarrow> jsstring" where
  "logical_or a b = (case a of None \<Rightarrow> b | Some s \<Rightarrow> if s = [] then b else s)"

text \<open>
  What one call of the filter does: the transport errors it constructs, the calls of the
  base filter's \<open>catch\<close> it makes (the only place where a response is written), and
  what it returns: the result of the base filter's \<open>catch\<close>, a value, or nothing.
\<close>

datatype caught = Original PrismaClientKnownRequestError | Transport HttpException

datatype returned_value = ReturnSuper | ReturnValue caught | ReturnUndefined

record outcome =
  constructed :: "HttpException list"
  delegated :: "(caught \<times> ArgumentsHost) list"
  returned :: returned_value

definition new_HttpException :: "ResponseBody \<Rightarrow> int option \<Rightarrow> HttpException" where
  "new_HttpException body st = \<lparr>response = body, status = st\<rparr>"

definition Object_keys :: "('k \<rightharpoonup> 'v) \<Rightarrow> 'k set" where
  "Object_keys obj = dom obj"

definition includes_key :: "'k set \<Rightarrow> 'k \<Rightarrow> bool" where
  "includes_key keys k = (k \<in> keys)"

definition catchClientKnownRequestError ::
  "PrismaClientExceptionFilter \<Rightarrow> PrismaClientKnownRequestError \<Rightarrow> ArgumentsHost
     \<Rightarrow> outcome" where
  "catchClientKnownRequestError this exception host =
     (let statusCode = errorCodesStatusMapping this (code exception);
          message = logical_or (errorCodesMessageMapping this (code exception))
                      (defaultExceptionMessage exception)
      in if getType host = lit ''http'' then
           if \<not> includes_key (Object_keys (errorCodesStatusMapping this)) (code exception) then
             \<lparr>constructed = [], delegated = [(Original exception, host)],
              returned = ReturnSuper\<rparr>
           else
             let e = new_HttpException \<lparr>statusCode = statusCode, body_message = message\<rparr>
                       statusCode
             in \<lparr>constructed = [e], delegated = [(Transport e, host)],
                 returned = ReturnSuper\<rparr>
         else if getType host = lit ''graphql'' then
           if \<not> includes_key (Object_keys (errorCodesStatusMapping this)) (code exception) then
             \<lparr>constructed = [], delegated = [], returned = ReturnValue (Original exception)\<rparr>
           else
             let e = new_HttpException \<lparr>statusCode = statusCode, body_message = message\<rparr>
                       statusCode
             in \<lparr>constructed = [e], delegated = [], returned = ReturnValue (Transport e)\<rparr>
         else \<lparr>constructed = [], delegated = [], returned = ReturnUndefined\<rparr>)"

definition catch ::
  "PrismaClientExceptionFilter \<Rightarrow> PrismaClientKnownRequestError \<Rightarrow> ArgumentsHost
     \<Rightarrow> outcome" where
  "catch this exception host = catchClientKnownRequestError this exception host"

section \<open>The client wrapper\<close>

record 'client CustomPrismaService =
  client :: 'client

definition new_CustomPrismaService :: "'client \<Rightarrow> 'client CustomPrismaService" where
  "new_CustomPrismaService c = \<lparr>client = c\<rparr>"

section \<open>The derivation of the default message, as the specification words it\<close>

text \<open>
  The specification's steps, each on its own: the text from the first arrow on; of a
  text, what stands after its first line feed; then line feeds stripped, the result
  trimmed, and the code in brackets put in front. They are compared with
  \<open>defaultExceptionMessage\<close> below.
\<close>

definition from_first_arrow :: "jsstring \<Rightarrow> jsstring" where
  "from_first_arrow s = dropWhile (\<lambda>c. c \<noteq> ARROW) s"

definition after_first_newline :: "jsstring \<Rightarrow> jsstring" where
  "after_first_newline s = tl (dropWhile (\<lambda>c. c \<noteq> LF) s)"

definition spec_default_message :: "jsstring \<Rightarrow> jsstring \<Rightarrow> jsstring" where
  "spec_default_message c raw =
     lit ''['' @ c @ lit '']: '' @
     trim (filter (\<lambda>x. x \<noteq> LF) (after_first_newline (from_first_arrow raw)))"

text \<open>
  The same steps for every text: a text without an arrow is taken whole, and a text
  without a line feed is taken whole.
\<close>

definition from_first_arrow_or_whole :: "jsstring \<Rightarrow> jsstring" where
  "from_first_arrow_or_whole s = (if ARROW \<in> set s then from_first_arrow s else s)"

definition after_first_newline_or_whole :: "jsstring \<Rightarrow> jsstring" where
  "after_first_newline_or_whole s = (if LF \<in> set s then after_first_newline s else s)"

definition derived_default_message :: "jsstring \<Rightarrow> jsstring \<Rightarrow> jsstring" where
  "derived_default_message c raw =
     lit ''['' @ c @ lit '']: '' @
     trim (filter (\<lambda>x. x \<noteq> LF)
       (after_first_newline_or_whole (from_first_arrow_or_whole raw)))"

section \<open>Properties\<close>

subsection \<open>Searching for one code unit\<close>

lemma startsWith_single: "startsWith (x # xs) [c] = (x = c)"
  by (simp add: startsWith_def)

lemma indexOf_from_single:
  "indexOf_from i s [c] =
     (if c \<in> set s then i + int (length (takeWhile (\<lambda>x. x \<noteq> c) s)) else - 1)"
  by (induction s arbitrary: i) (auto simp: startsWith_single)

lemma indexOf_absent: "c \<notin> set s \<Longrightarrow> indexOf s [c] = - 1"
  by (simp add: indexOf_def indexOf_from_single)

lemma substring_negative: "i < 0 \<Longrightarrow> substring s i = s"
  by (simp add: substring_def)

lemma substring_indexOf_single:
  "substring s (indexOf s [c]) = (if c \<in> set s then dropWhile (\<lambda>x. x \<noteq> c) s else s)"
proof (cases "c \<in> set s")
  case True
  have "length (takeWhile (\<lambda>x. x \<noteq> c) s) \<le> length s"
    by (rule length_takeWhile_le)
  with True show ?thesis
    by (simp add: substring_def indexOf_def indexOf_from_single Let_def dropWhile_eq_drop)
next
  case False
  then show ?thesis
    by (simp add: indexOf_absent substring_negative)
qed

lemma replace_newlines_after:
  "LF \<in> set s \<Longrightarrow>
   replace_newlines (dropWhile (\<lambda>x. x \<noteq> LF) s) =
   filter (\<lambda>x. x \<noteq> LF) (tl (dropWhile (\<lambda>x. x \<noteq> LF) s))"
  by (induction s) (auto simp: replace_newlines_def)

lemma replace_newlines_none: "LF \<notin> set s \<Longrightarrow> replace_newlines s = s"
  by (induction s) (auto simp: replace_newlines_def)

lemmas string_eval = lit_def ARROW_def LF_def trim_def isWhiteSpace_def

subsection \<open>The default message\<close>

lemma filter_no_newline: "LF \<notin> set s \<Longrightarrow> filter (\<lambda>x. x \<noteq> LF) s = s"
  by (induction s) auto

text \<open>
  C2. For every error the derived message is the code in brackets followed by: the raw
  text from its first arrow on (the whole text when it has no arrow), of that what stands
  after its first line feed (all of it when it has no line feed), line feeds stripped,
  trimmed. Where the raw text has an arrow and a line feed after the first arrow, these
  are the specification's steps as they are worded. For the raw text
  \<open>"... \<rightarrow> \n  Some detail here\n"\<close> and the code P2002 the message is
  \<open>"[P2002]: Some detail here"\<close>.
\<close>

theorem defaultExceptionMessage_derivation:
  "defaultExceptionMessage e = derived_default_message (code e) (message e)
   \<and> (ARROW \<in> set (message e) \<and> LF \<in> set (from_first_arrow (message e)) \<longrightarrow>
      defaultExceptionMessage e = spec_default_message (code e) (message e))
   \<and> defaultExceptionMessage
        \<lparr>code = lit ''P2002'',
         message = lit ''... '' @ [ARROW] @ lit '' '' @ [LF] @ lit ''  Some detail here'' @ [LF]\<rparr>
       = lit ''[P2002]: Some detail here''"
proof -
  define short where "short = substring (message e) (indexOf (message e) [ARROW])"
  have short: "short = from_first_arrow_or_whole (message e)"
    by (simp add: short_def substring_indexOf_single from_first_arrow_or_whole_def
        from_first_arrow_def)
  have "replace_newlines (substring short (indexOf short [LF])) =
      filter (\<lambda>x. x \<noteq> LF) (after_first_newline_or_whole short)"
    by (simp add: substring_indexOf_single replace_newlines_after replace_newlines_none
        after_first_newline_or_whole_def after_first_newline_def filter_no_newline)
  then have total: "defaultExceptionMessage e = derived_default_message (code e) (message e)"
    by (simp add: defaultExceptionMessage_def derived_default_message_def Let_def
        short_def [symmetric] short [symmetric])
  have worded: "derived_default_message (code e) (message e) =
      spec_default_message (code e) (message e)"
    if "ARROW \<in> set (message e) \<and> LF \<in> set (from_first_arrow (message e))"
    using that
    by (simp add: derived_default_message_def spec_default_message_def
        from_first_arrow_or_whole_def after_first_newline_or_whole_def)
  have example: "defaultExceptionMessage
        \<lparr>code = lit ''P2002'',
         message = lit ''... '' @ [ARROW] @ lit '' '' @ [LF] @ lit ''  Some detail here'' @ [LF]\<rparr>
       = lit ''[P2002]: Some detail here''"
    by (simp add: defaultExceptionMessage_def Let_def string_eval startsWith_def indexOf_def
        substring_def replace_newlines_def)
  from total worded example show ?thesis
    by simp
qed

theorem defaultExceptionMessage_derivation_witness:
  "ARROW \<in> set (lit ''Invalid invocation: '' @ [ARROW] @ lit '' 12 create'' @ [LF] @
       lit ''Unique constraint '' @ [LF] @ lit ''failed on email  '')
   \<and> LF \<in> set (from_first_arrow (lit ''Invalid invocation: '' @ [ARROW] @
       lit '' 12 create'' @ [LF] @ lit ''Unique constraint '' @ [LF] @ lit ''failed on email  ''))
   \<and> defaultExceptionMessage
        \<lparr>code = lit ''P2002'',
         message = lit ''Invalid invocation: '' @ [ARROW] @ lit '' 12 create'' @ [LF] @
           lit ''Unique constraint '' @ [LF] @ lit ''failed on email  ''\<rparr>
       = lit ''[P2002]: Unique constraint failed on email''"
proof -
  let ?raw = "lit ''Invalid invocation: '' @ [ARROW] @ lit '' 12 create'' @ [LF] @
       lit ''Unique constraint '' @ [LF] @ lit ''failed on email  ''"
  let ?e = "\<lparr>code = lit ''P2002'', message = ?raw\<rparr>"
  have a: "ARROW \<in> set ?raw"
    by simp
  have n: "LF \<in> set (from_first_arrow ?raw)"
    by (simp add: from_first_arrow_def string_eval)
  have v: "spec_default_message (lit ''P2002'') ?raw =
      lit ''[P2002]: Unique constraint failed on email''"
    by (simp add: spec_default_message_def after_first_newline_def from_first_arrow_def
        string_eval)
  have an: "ARROW \<in> set (message ?e) \<and> LF \<in> set (from_first_arrow (message ?e))"
    using a n by simp
  from defaultExceptionMessage_derivation [of ?e] an
  have "defaultExceptionMessage ?e = spec_default_message (code ?e) (message ?e)"
    by blast
  with a n v show ?thesis
    by simp
qed

text \<open>
  C2 as it was stated, with the specification's steps for every error, fails outside
  those texts. A text with line feeds and no arrow has no substring that starts at an
  arrow, and the code goes on from the whole text; a text with an arrow and no line feed
  after it has nothing after a first line feed, and the code keeps the text from the
  arrow on. In both the worded steps leave only the prefix.
\<close>

theorem defaultExceptionMessage_derivation_counterexample:
  "defaultExceptionMessage
       \<lparr>code = lit ''P2025'', message = lit ''first'' @ [LF] @ lit ''second''\<rparr>
     = lit ''[P2025]: second''
   \<and> spec_default_message (lit ''P2025'') (lit ''first'' @ [LF] @ lit ''second'')
     = lit ''[P2025]: ''
   \<and> lit ''[P2025]: second'' \<noteq> lit ''[P2025]: ''
   \<and> defaultExceptionMessage
       \<lparr>code = lit ''P2002'', message = lit ''head '' @ [ARROW] @ lit '' tail''\<rparr>
     = lit ''[P2002]: '' @ [ARROW] @ lit '' tail''
   \<and> spec_default_message (lit ''P2002'') (lit ''head '' @ [ARROW] @ lit '' tail'')
     = lit ''[P2002]: ''
   \<and> lit ''[P2002]: '' @ [ARROW] @ lit '' tail'' \<noteq> lit ''[P2002]: ''"
  by (simp add: defaultExceptionMessage_def Let_def string_eval startsWith_def indexOf_def
      substring_def replace_newlines_def spec_default_message_def from_first_arrow_def
      after_first_newline_def)

text \<open>
  C10. A raw text with no arrow and no line feed: both searches give \<open>-1\<close>, both
  substrings start at position 0, and the derived message is the code in brackets
  followed by the whole text, trimmed.
\<close>

theorem defaultExceptionMessage_no_arrow_no_newline:
  assumes "ARROW \<notin> set (message e)" and "LF \<notin> set (message e)"
  shows "indexOf (message e) [ARROW] = - 1
     \<and> substring (message e) (indexOf (message e) [ARROW]) = drop 0 (message e)
     \<and> indexOf (message e) [LF] = - 1
     \<and> substring (message e) (indexOf (message e) [LF]) = drop 0 (message e)
     \<and> defaultExceptionMessage e = lit ''['' @ code e @ lit '']: '' @ trim (message e)"
  using assms
  by (simp add: defaultExceptionMessage_def Let_def indexOf_absent substring_negative
      replace_newlines_none)

theorem defaultExceptionMessage_no_arrow_no_newline_witness:
  "ARROW \<notin> set (lit ''  Record to update not found. '')
   \<and> LF \<notin> set (lit ''  Record to update not found. '')
   \<and> defaultExceptionMessage
        \<lparr>code = lit ''P2025'', message = lit ''  Record to update not found. ''\<rparr>
       = lit ''[P2025]: Record to update not found.''"
proof -
  let ?raw = "lit ''  Record to update not found. ''"
  let ?e = "\<lparr>code = lit ''P2025'', message = ?raw\<rparr>"
  have a: "ARROW \<notin> set (message ?e)"
    by (simp add: string_eval)
  have n: "LF \<notin> set (message ?e)"
    by (simp add: string_eval)
  have t: "trim ?raw = lit ''Record to update not found.''"
    by (simp add: string_eval)
  from defaultExceptionMessage_no_arrow_no_newline [OF a n]
  have "defaultExceptionMessage ?e = lit ''['' @ code ?e @ lit '']: '' @ trim (message ?e)"
    by simp
  with a n t show ?thesis
    by (simp add: lit_def)
qed

subsection \<open>Facts about the filter used below\<close>

lemmas catch_unfold = catch_def catchClientKnownRequestError_def Let_def includes_key_def
  Object_keys_def new_HttpException_def

lemma lit_http_graphql: "lit ''graphql'' \<noteq> lit ''http''"
  by (simp add: lit_def)

lemma default_status_lookup:
  "default_errorCodesStatusMapping (lit ''P2000'') = Some 400"
  "default_errorCodesStatusMapping (lit ''P2002'') = Some 409"
  "default_errorCodesStatusMapping (lit ''P2025'') = Some 404"
  by (simp_all add: default_errorCodesStatusMapping_def BAD_REQUEST_def CONFLICT_def
      NOT_FOUND_def lit_def)

lemma constructor_status:
  "errorCodesStatusMapping (constructor ref so mo) =
     (case so of None \<Rightarrow> default_errorCodesStatusMapping
      | Some m \<Rightarrow> Object_assign default_errorCodesStatusMapping m)"
  by (simp add: constructor_def Let_def split: option.splits)

lemma constructor_message:
  "errorCodesMessageMapping (constructor ref so mo) =
     (case mo of None \<Rightarrow> default_errorCodesMessageMapping
      | Some m \<Rightarrow> Object_assign default_errorCodesMessageMapping m)"
  by (simp add: constructor_def Let_def split: option.splits)

lemma Object_assign_absent: "source k = None \<Longrightarrow> Object_assign target source k = target k"
  by (simp add: Object_assign_def)

lemma catch_http_mapped:
  assumes "getType host = lit ''http''"
    and "errorCodesStatusMapping f (code e) = Some v"
  shows "catch f e host =
     \<lparr>constructed =
        [\<lparr>response = \<lparr>statusCode = Some v,
            body_message = logical_or (errorCodesMessageMapping f (code e))
              (defaultExceptionMessage e)\<rparr>,
          status = Some v\<rparr>],
      delegated =
        [(Transport \<lparr>response = \<lparr>statusCode = Some v,
            body_message = logical_or (errorCodesMessageMapping f (code e))
              (defaultExceptionMessage e)\<rparr>,
          status = Some v\<rparr>, host)],
      returned = ReturnSuper\<rparr>"
  using assms by (simp add: catch_unfold domIff)

lemma default_message_example:
  "defaultExceptionMessage \<lparr>code = c, message = lit ''... '' @ [ARROW] @ lit '' '' @ [LF] @ lit ''  Some detail here'' @ [LF]\<rparr>
     = lit ''['' @ c @ lit '']: Some detail here''"
  by (simp add: defaultExceptionMessage_def Let_def string_eval startsWith_def indexOf_def
      substring_def replace_newlines_def)

subsection \<open>Mapped and unmapped codes, by request context\<close>

text \<open>
  C1. A filter handling an error with code P2000, P2002 or P2025 in an \<open>http\<close> context
  hands the base filter one transport error whose status and whose body field
  \<open>statusCode\<close> are both the value of the status mapping for the code: the default
  400, 409 and 404 respectively, unless the status override given to the constructor
  rebinds the code, and then the override's value.
\<close>

theorem catch_http_default_codes:
  assumes "getType host = lit ''http''"
    and "(code e, d) \<in> {(lit ''P2000'', 400), (lit ''P2002'', 409), (lit ''P2025'', 404)}"
  shows "catch (constructor ref so mo) e host =
     \<lparr>constructed =
        [\<lparr>response =
            \<lparr>statusCode = errorCodesStatusMapping (constructor ref so mo) (code e),
             body_message = logical_or (errorCodesMessageMapping (constructor ref so mo) (code e))
               (defaultExceptionMessage e)\<rparr>,
          status = errorCodesStatusMapping (constructor ref so mo) (code e)\<rparr>],
      delegated =
        [(Transport
            \<lparr>response =
               \<lparr>statusCode = errorCodesStatusMapping (constructor ref so mo) (code e),
                body_message = logical_or (errorCodesMessageMapping (constructor ref so mo) (code e))
                  (defaultExceptionMessage e)\<rparr>,
             status = errorCodesStatusMapping (constructor ref so mo) (code e)\<rparr>, host)],
      returned = ReturnSuper\<rparr>
   \<and> errorCodesStatusMapping (constructor ref so mo) (code e) =
       (case so of
          None \<Rightarrow> Some d
        | Some m \<Rightarrow> (case m (code e) of None \<Rightarrow> Some d | Some w \<Rightarrow> Some w))"
proof -
  from assms(2) have d: "default_errorCodesStatusMapping (code e) = Some d"
    by (auto simp: default_status_lookup)
  have v: "errorCodesStatusMapping (constructor ref so mo) (code e) =
       (case so of
          None \<Rightarrow> Some d
        | Some m \<Rightarrow> (case m (code e) of None \<Rightarrow> Some d | Some w \<Rightarrow> Some w))"
    using d by (simp add: constructor_status Object_assign_def split: option.splits)
  then obtain w where w: "errorCodesStatusMapping (constructor ref so mo) (code e) = Some w"
    by (auto split: option.splits)
  from catch_http_mapped [OF assms(1) w] v w show ?thesis
    by simp
qed

theorem catch_http_default_codes_witness:
  "getType \<lparr>getType = lit ''http''\<rparr> = lit ''http''
   \<and> (lit ''P2002'', 409) \<in> {(lit ''P2000'', 400), (lit ''P2002'', 409), (lit ''P2025'', 404 :: int)}
   \<and> catch (constructor None (Some [lit ''P2999'' \<mapsto> 418]) None)
         \<lparr>code = lit ''P2002'',
          message = lit ''... '' @ [ARROW] @ lit '' '' @ [LF] @ lit ''  Some detail here'' @ [LF]\<rparr>
         \<lparr>getType = lit ''http''\<rparr> =
       \<lparr>constructed =
          [\<lparr>response = \<lparr>statusCode = Some 409, body_message = lit ''[P2002]: Some detail here''\<rparr>,
            status = Some 409\<rparr>],
        delegated =
          [(Transport
             \<lparr>response = \<lparr>statusCode = Some 409, body_message = lit ''[P2002]: Some detail here''\<rparr>,
              status = Some 409\<rparr>,
            \<lparr>getType = lit ''http''\<rparr>)],
        returned = ReturnSuper\<rparr>"
proof -
  let ?f = "constructor None (Some [lit ''P2999'' \<mapsto> 418]) None"
  let ?e = "\<lparr>code = lit ''P2002'',
    message = lit ''... '' @ [ARROW] @ lit '' '' @ [LF] @ lit ''  Some detail here'' @ [LF]\<rparr>"
  let ?host = "\<lparr>getType = lit ''http''\<rparr>"
  have h: "getType ?host = lit ''http''"
    by simp
  have c: "(code ?e, 409) \<in> {(lit ''P2000'', 400), (lit ''P2002'', 409), (lit ''P2025'', 404 :: int)}"
    by simp
  have n: "[lit ''P2999'' \<mapsto> 418 :: int] (code ?e) = None"
    by (simp add: lit_def)
  have m: "logical_or (errorCodesMessageMapping ?f (code ?e)) (defaultExceptionMessage ?e) =
      lit ''[P2002]: Some detail here''"
    using default_message_example [of "lit ''P2002''"]
    by (simp add: constructor_message default_errorCodesMessageMapping_def logical_or_def
        lit_def)
  note t = catch_http_default_codes [OF h c, where ref = None and mo = None
      and so = "Some [lit ''P2999'' \<mapsto> 418]"]
  from t have s: "errorCodesStatusMapping ?f (code ?e) = Some 409"
    unfolding option.case n by (rule conjunct2)
  from t have "catch ?f ?e ?host =
     \<lparr>constructed =
        [\<lparr>response =
            \<lparr>statusCode = errorCodesStatusMapping ?f (code ?e),
             body_message = logical_or (errorCodesMessageMapping ?f (code ?e))
               (defaultExceptionMessage ?e)\<rparr>,
          status = errorCodesStatusMapping ?f (code ?e)\<rparr>],
      delegated =
        [(Transport
            \<lparr>response =
               \<lparr>statusCode = errorCodesStatusMapping ?f (code ?e),
                body_message = logical_or (errorCodesMessageMapping ?f (code ?e))
                  (defaultExceptionMessage ?e)\<rparr>,
             status = errorCodesStatusMapping ?f (code ?e)\<rparr>, ?host)],
      returned = ReturnSuper\<rparr>"
    by (rule conjunct1)
  then have "catch ?f ?e ?host =
       \<lparr>constructed =
          [\<lparr>response = \<lparr>statusCode = Some 409, body_message = lit ''[P2002]: Some detail here''\<rparr>,
            status = Some 409\<rparr>],
        delegated =
          [(Transport
             \<lparr>response = \<lparr>statusCode = Some 409, body_message = lit ''[P2002]: Some detail here''\<rparr>,
              status = Some 409\<rparr>,
            ?host)],
        returned = ReturnSuper\<rparr>"
    unfolding s m .
  with h c show ?thesis
    by simp
qed

text \<open>
  C1 as it was stated, with the default value for every filter, fails for a filter whose
  status override rebinds the code: with the override \<open>{P2002: 422}\<close> the error P2002
  is handed on with 422, not 409.
\<close>

theorem catch_http_overridden_code_counterexample:
  "(lit ''P2002'', 409) \<in> {(lit ''P2000'', 400), (lit ''P2002'', 409), (lit ''P2025'', 404 :: int)}
   \<and> catch (constructor None (Some [lit ''P2002'' \<mapsto> 422]) None)
         \<lparr>code = lit ''P2002'',
          message = lit ''... '' @ [ARROW] @ lit '' '' @ [LF] @ lit ''  Some detail here'' @ [LF]\<rparr>
         \<lparr>getType = lit ''http''\<rparr> =
       \<lparr>constructed =
          [\<lparr>response = \<lparr>statusCode = Some 422, body_message = lit ''[P2002]: Some detail here''\<rparr>,
            status = Some 422\<rparr>],
        delegated =
          [(Transport
             \<lparr>response = \<lparr>statusCode = Some 422, body_message = lit ''[P2002]: Some detail here''\<rparr>,
              status = Some 422\<rparr>,
            \<lparr>getType = lit ''http''\<rparr>)],
        returned = ReturnSuper\<rparr>
   \<and> Some (422 :: int) \<noteq> Some 409"
proof -
  let ?f = "constructor None (Some [lit ''P2002'' \<mapsto> 422]) None"
  let ?e = "\<lparr>code = lit ''P2002'',
    message = lit ''... '' @ [ARROW] @ lit '' '' @ [LF] @ lit ''  Some detail here'' @ [LF]\<rparr>"
  let ?host = "\<lparr>getType = lit ''http''\<rparr>"
  have h: "getType ?host = lit ''http''"
    by simp
  have s: "errorCodesStatusMapping ?f (code ?e) = Some 422"
    by (simp add: constructor_status Object_assign_def)
  have m: "logical_or (errorCodesMessageMapping ?f (code ?e)) (defaultExceptionMessage ?e) =
      lit ''[P2002]: Some detail here''"
    using default_message_example [of "lit ''P2002''"]
    by (simp add: constructor_message default_errorCodesMessageMapping_def logical_or_def
        lit_def)
  have "catch ?f ?e ?host =
       \<lparr>constructed =
          [\<lparr>response = \<lparr>statusCode = Some 422, body_message = lit ''[P2002]: Some detail here''\<rparr>,
            status = Some 422\<rparr>],
        delegated =
          [(Transport
             \<lparr>response = \<lparr>statusCode = Some 422, body_message = lit ''[P2002]: Some detail here''\<rparr>,
              status = Some 422\<rparr>,
            ?host)],
        returned = ReturnSuper\<rparr>"
    unfolding catch_http_mapped [OF h s] m by (rule refl)
  then show ?thesis
    by simp
qed

text \<open>
  C5. In an \<open>http\<close> context, an error whose code is not a key of the status mapping is
  passed on to the base filter as it is; no transport error is constructed.
\<close>

theorem catch_http_unmapped_code:
  assumes "getType host = lit ''http''"
    and "code e \<notin> dom (errorCodesStatusMapping f)"
  shows "catch f e host =
     \<lparr>constructed = [], delegated = [(Original e, host)], returned = ReturnSuper\<rparr>"
  using assms by (simp add: catch_unfold)

theorem catch_http_unmapped_code_witness:
  "getType \<lparr>getType = lit ''http''\<rparr> = lit ''http''
   \<and> lit ''P2003'' \<notin> dom (errorCodesStatusMapping (constructor None None None))
   \<and> catch (constructor None None None)
         \<lparr>code = lit ''P2003'', message = lit ''Foreign key constraint failed''\<rparr>
         \<lparr>getType = lit ''http''\<rparr> =
       \<lparr>constructed = [],
        delegated = [(Original \<lparr>code = lit ''P2003'', message = lit ''Foreign key constraint failed''\<rparr>,
                      \<lparr>getType = lit ''http''\<rparr>)],
        returned = ReturnSuper\<rparr>"
proof -
  let ?f = "constructor None None None"
  let ?e = "\<lparr>code = lit ''P2003'', message = lit ''Foreign key constraint failed''\<rparr>"
  let ?host = "\<lparr>getType = lit ''http''\<rparr>"
  have h: "getType ?host = lit ''http''"
    by simp
  have a: "code ?e \<notin> dom (errorCodesStatusMapping ?f)"
    by (simp add: constructor_status default_errorCodesStatusMapping_def lit_def)
  from a catch_http_unmapped_code [OF h a] show ?thesis
    by simp
qed

text \<open>
  C6. In a \<open>graphql\<close> context, an error whose code is not a key of the status mapping is
  returned as it is; nothing is constructed and the base filter is not called.
\<close>

theorem catch_graphql_unmapped_code:
  assumes "getType host = lit ''graphql''"
    and "code e \<notin> dom (errorCodesStatusMapping f)"
  shows "catch f e host =
     \<lparr>constructed = [], delegated = [], returned = ReturnValue (Original e)\<rparr>"
  using assms by (simp add: catch_unfold lit_http_graphql)

theorem catch_graphql_unmapped_code_witness:
  "getType \<lparr>getType = lit ''graphql''\<rparr> = lit ''graphql''
   \<and> lit ''P2003'' \<notin> dom (errorCodesStatusMapping (constructor None None None))
   \<and> returned (catch (constructor None None None)
         \<lparr>code = lit ''P2003'', message = lit ''Foreign key constraint failed''\<rparr>
         \<lparr>getType = lit ''graphql''\<rparr>) =
       ReturnValue (Original \<lparr>code = lit ''P2003'', message = lit ''Foreign key constraint failed''\<rparr>)"
proof -
  let ?f = "constructor None None None"
  let ?e = "\<lparr>code = lit ''P2003'', message = lit ''Foreign key constraint failed''\<rparr>"
  let ?host = "\<lparr>getType = lit ''graphql''\<rparr>"
  have h: "getType ?host = lit ''graphql''"
    by simp
  have a: "code ?e \<notin> dom (errorCodesStatusMapping ?f)"
    by (simp add: constructor_status default_errorCodesStatusMapping_def lit_def)
  from a catch_graphql_unmapped_code [OF h a] show ?thesis
    by simp
qed

text \<open>
  C7. In a \<open>graphql\<close> context, an error whose code is mapped to a status is answered by
  returning a newly constructed transport error with body \<open>{statusCode, message}\<close> and
  that status; the base filter is not called, so nothing is written.
\<close>

theorem catch_graphql_mapped_code:
  assumes "getType host = lit ''graphql''"
    and "errorCodesStatusMapping f (code e) = Some v"
  shows "catch f e host =
     \<lparr>constructed =
        [\<lparr>response = \<lparr>statusCode = Some v,
            body_message = logical_or (errorCodesMessageMapping f (code e))
              (defaultExceptionMessage e)\<rparr>,
          status = Some v\<rparr>],
      delegated = [],
      returned = ReturnValue (Transport
         \<lparr>response = \<lparr>statusCode = Some v,
            body_message = logical_or (errorCodesMessageMapping f (code e))
              (defaultExceptionMessage e)\<rparr>,
          status = Some v\<rparr>)\<rparr>"
  using assms by (simp add: catch_unfold lit_http_graphql domIff)

theorem catch_graphql_mapped_code_witness:
  "getType \<lparr>getType = lit ''graphql''\<rparr> = lit ''graphql''
   \<and> errorCodesStatusMapping (constructor None None None) (lit ''P2025'') = Some 404
   \<and> catch (constructor None None None)
         \<lparr>code = lit ''P2025'', message = lit ''  Record to update not found. ''\<rparr>
         \<lparr>getType = lit ''graphql''\<rparr> =
       \<lparr>constructed =
          [\<lparr>response = \<lparr>statusCode = Some 404,
              body_message = lit ''[P2025]: Record to update not found.''\<rparr>,
            status = Some 404\<rparr>],
        delegated = [],
        returned = ReturnValue (Transport
           \<lparr>response = \<lparr>statusCode = Some 404,
              body_message = lit ''[P2025]: Record to update not found.''\<rparr>,
            status = Some 404\<rparr>)\<rparr>"
proof -
  let ?f = "constructor None None None"
  let ?e = "\<lparr>code = lit ''P2025'', message = lit ''  Record to update not found. ''\<rparr>"
  let ?host = "\<lparr>getType = lit ''graphql''\<rparr>"
  have h: "getType ?host = lit ''graphql''"
    by simp
  have a: "errorCodesStatusMapping ?f (code ?e) = Some 404"
    by (simp add: constructor_status default_status_lookup)
  have m: "logical_or (errorCodesMessageMapping ?f (code ?e)) (defaultExceptionMessage ?e) =
      lit ''[P2025]: Record to update not found.''"
    by (simp add: constructor_message default_errorCodesMessageMapping_def logical_or_def
        defaultExceptionMessage_def Let_def string_eval startsWith_def indexOf_def
        substring_def replace_newlines_def)
  from m a catch_graphql_mapped_code [OF h a] show ?thesis
    by simp
qed

text \<open>
  C9. In a context that is neither \<open>http\<close> nor \<open>graphql\<close> the filter constructs nothing,
  does not call the base filter and returns \<open>undefined\<close>.
\<close>

theorem catch_other_context:
  assumes "getType host \<noteq> lit ''http''" and "getType host \<noteq> lit ''graphql''"
  shows "catch f e host = \<lparr>constructed = [], delegated = [], returned = ReturnUndefined\<rparr>"
  using assms by (simp add: catch_unfold)

theorem catch_other_context_witness:
  "getType \<lparr>getType = lit ''rpc''\<rparr> \<noteq> lit ''http''
   \<and> getType \<lparr>getType = lit ''rpc''\<rparr> \<noteq> lit ''graphql''
   \<and> catch (constructor None None None)
         \<lparr>code = lit ''P2002'', message = lit ''Unique constraint failed''\<rparr>
         \<lparr>getType = lit ''rpc''\<rparr> =
       \<lparr>constructed = [], delegated = [], returned = ReturnUndefined\<rparr>"
proof -
  let ?host = "\<lparr>getType = lit ''rpc''\<rparr>"
  have h: "getType ?host \<noteq> lit ''http''"
    by (simp add: lit_def)
  have g: "getType ?host \<noteq> lit ''graphql''"
    by (simp add: lit_def)
  from h g catch_other_context [OF h g] show ?thesis
    by simp
qed

subsection \<open>Which message the response carries\<close>

text \<open>
  C4. For an error whose code is a key of the status mapping, handled in an \<open>http\<close> or
  \<open>graphql\<close> context, the message of the response is the message-mapping entry for the
  code when there is one and it is not the empty string, and the derived default message
  when there is no entry or the entry is the empty string. With the status override
  \<open>{P2000: 400}\<close>, a message override that maps P2000 to \<open>"custom"\<close> gives exactly
  \<open>"custom"\<close> for the code P2000, and one that leaves P2000 out gives the derived
  default message.
\<close>

theorem response_message_precedence:
  "(code e \<in> dom (errorCodesStatusMapping f)
      \<and> (getType host = lit ''http'' \<or> getType host = lit ''graphql'') \<longrightarrow>
      map (\<lambda>h. body_message (response h)) (constructed (catch f e host)) =
        [case errorCodesMessageMapping f (code e) of
           None \<Rightarrow> defaultExceptionMessage e
         | Some s \<Rightarrow> if s = lit '''' then defaultExceptionMessage e else s])
   \<and> (code e = lit ''P2000''
      \<and> (getType host = lit ''http'' \<or> getType host = lit ''graphql'') \<longrightarrow>
      map (\<lambda>h. body_message (response h))
        (constructed (catch (constructor ref (Some [lit ''P2000'' \<mapsto> 400])
           (Some (m(lit ''P2000'' \<mapsto> lit ''custom'')))) e host)) = [lit ''custom''])
   \<and> (code e = lit ''P2000'' \<and> lit ''P2000'' \<notin> dom m
      \<and> (getType host = lit ''http'' \<or> getType host = lit ''graphql'') \<longrightarrow>
      map (\<lambda>h. body_message (response h))
        (constructed (catch (constructor ref (Some [lit ''P2000'' \<mapsto> 400]) (Some m)) e host)) =
        [defaultExceptionMessage e])"
proof -
  have gen: "map (\<lambda>h. body_message (response h)) (constructed (catch f e host)) =
        [case errorCodesMessageMapping f (code e) of
           None \<Rightarrow> defaultExceptionMessage e
         | Some s \<Rightarrow> if s = lit '''' then defaultExceptionMessage e else s]"
    if "code e \<in> dom (errorCodesStatusMapping f)"
      and "getType host = lit ''http'' \<or> getType host = lit ''graphql''"
    for f
    using that
    by (auto simp: catch_unfold lit_http_graphql logical_or_def lit_def split: option.splits)
  have st: "lit ''P2000'' \<in> dom (errorCodesStatusMapping
      (constructor ref (Some [lit ''P2000'' \<mapsto> 400]) mm))" for mm
    by (simp add: constructor_status Object_assign_def domIff)
  have cu: "errorCodesMessageMapping (constructor ref (Some [lit ''P2000'' \<mapsto> 400])
      (Some (m(lit ''P2000'' \<mapsto> lit ''custom'')))) (lit ''P2000'') = Some (lit ''custom'')"
    by (simp add: constructor_message Object_assign_def)
  have ne: "lit ''custom'' \<noteq> lit ''''"
    by (simp add: lit_def)
  have om: "errorCodesMessageMapping (constructor ref (Some [lit ''P2000'' \<mapsto> 400]) (Some m))
      (lit ''P2000'') = None" if "lit ''P2000'' \<notin> dom m"
    using that
    by (simp add: constructor_message Object_assign_def default_errorCodesMessageMapping_def
        domIff)
  show ?thesis
  proof (intro conjI impI)
    assume "code e \<in> dom (errorCodesStatusMapping f)
      \<and> (getType host = lit ''http'' \<or> getType host = lit ''graphql'')"
    then show "map (\<lambda>h. body_message (response h)) (constructed (catch f e host)) =
        [case errorCodesMessageMapping f (code e) of
           None \<Rightarrow> defaultExceptionMessage e
         | Some s \<Rightarrow> if s = lit '''' then defaultExceptionMessage e else s]"
      by (simp add: gen)
  next
    assume a: "code e = lit ''P2000''
      \<and> (getType host = lit ''http'' \<or> getType host = lit ''graphql'')"
    then show "map (\<lambda>h. body_message (response h))
        (constructed (catch (constructor ref (Some [lit ''P2000'' \<mapsto> 400])
           (Some (m(lit ''P2000'' \<mapsto> lit ''custom'')))) e host)) = [lit ''custom'']"
      using gen [of "constructor ref (Some [lit ''P2000'' \<mapsto> 400])
           (Some (m(lit ''P2000'' \<mapsto> lit ''custom'')))"] st cu ne
      by simp
  next
    assume a: "code e = lit ''P2000'' \<and> lit ''P2000'' \<notin> dom m
      \<and> (getType host = lit ''http'' \<or> getType host = lit ''graphql'')"
    then show "map (\<lambda>h. body_message (response h))
        (constructed (catch (constructor ref (Some [lit ''P2000'' \<mapsto> 400]) (Some m)) e host)) =
        [defaultExceptionMessage e]"
      using gen [of "constructor ref (Some [lit ''P2000'' \<mapsto> 400]) (Some m)"] st om
      by simp
  qed
qed

theorem response_message_precedence_witness:
  "lit ''P2000'' \<in> dom (errorCodesStatusMapping
      (constructor None (Some [lit ''P2000'' \<mapsto> 400]) (Some [lit ''P2000'' \<mapsto> lit ''custom''])))
   \<and> getType \<lparr>getType = lit ''http''\<rparr> = lit ''http''
   \<and> map (\<lambda>h. body_message (response h))
        (constructed (catch
           (constructor None (Some [lit ''P2000'' \<mapsto> 400]) (Some [lit ''P2000'' \<mapsto> lit ''custom'']))
           \<lparr>code = lit ''P2000'',
            message = lit ''... '' @ [ARROW] @ lit '' '' @ [LF] @ lit ''  Some detail here'' @ [LF]\<rparr>
           \<lparr>getType = lit ''http''\<rparr>)) = [lit ''custom'']
   \<and> lit ''P2000'' \<in> dom (errorCodesStatusMapping
      (constructor None (Some [lit ''P2000'' \<mapsto> 400]) (Some [lit ''P2025'' \<mapsto> lit ''gone''])))
   \<and> map (\<lambda>h. body_message (response h))
        (constructed (catch
           (constructor None (Some [lit ''P2000'' \<mapsto> 400]) (Some [lit ''P2025'' \<mapsto> lit ''gone'']))
           \<lparr>code = lit ''P2000'',
            message = lit ''... '' @ [ARROW] @ lit '' '' @ [LF] @ lit ''  Some detail here'' @ [LF]\<rparr>
           \<lparr>getType = lit ''http''\<rparr>)) = [lit ''[P2000]: Some detail here'']"
proof -
  let ?f = "constructor None (Some [lit ''P2000'' \<mapsto> 400])
      (Some [lit ''P2000'' \<mapsto> lit ''custom''])"
  let ?g = "constructor None (Some [lit ''P2000'' \<mapsto> 400])
      (Some [lit ''P2025'' \<mapsto> lit ''gone''])"
  let ?e = "\<lparr>code = lit ''P2000'',
      message = lit ''... '' @ [ARROW] @ lit '' '' @ [LF] @ lit ''  Some detail here'' @ [LF]\<rparr>"
  let ?host = "\<lparr>getType = lit ''http''\<rparr>"
  have sf: "code ?e \<in> dom (errorCodesStatusMapping ?f)"
    by (simp add: constructor_status Object_assign_def domIff)
  have sg: "code ?e \<in> dom (errorCodesStatusMapping ?g)"
    by (simp add: constructor_status Object_assign_def domIff)
  have h: "getType ?host = lit ''http'' \<or> getType ?host = lit ''graphql''"
    by simp
  have mf: "errorCodesMessageMapping ?f (code ?e) = Some (lit ''custom'')"
    by (simp add: constructor_message Object_assign_def)
  have mg: "errorCodesMessageMapping ?g (code ?e) = None"
    by (simp add: constructor_message Object_assign_def default_errorCodesMessageMapping_def
        lit_def)
  have ne: "lit ''custom'' \<noteq> lit ''''"
    by (simp add: lit_def)
  have d: "defaultExceptionMessage ?e = lit ''[P2000]: Some detail here''"
    using default_message_example [of "lit ''P2000''"] by (simp add: lit_def)
  from response_message_precedence [of ?e ?f ?host] sf h
  have a: "map (\<lambda>h. body_message (response h)) (constructed (catch ?f ?e ?host)) =
      [case errorCodesMessageMapping ?f (code ?e) of
         None \<Rightarrow> defaultExceptionMessage ?e
       | Some s \<Rightarrow> if s = lit '''' then defaultExceptionMessage ?e else s]"
    by blast
  from response_message_precedence [of ?e ?g ?host] sg h
  have b: "map (\<lambda>h. body_message (response h)) (constructed (catch ?g ?e ?host)) =
      [case errorCodesMessageMapping ?g (code ?e) of
         None \<Rightarrow> defaultExceptionMessage ?e
       | Some s \<Rightarrow> if s = lit '''' then defaultExceptionMessage ?e else s]"
    by blast
  have a': "map (\<lambda>h. body_message (response h)) (constructed (catch ?f ?e ?host)) =
      [lit ''custom'']"
    unfolding a mf using ne by simp
  have b': "map (\<lambda>h. body_message (response h)) (constructed (catch ?g ?e ?host)) =
      [lit ''[P2000]: Some detail here'']"
    unfolding b mg d by simp
  from sf sg a' b' show ?thesis
    by simp
qed

text \<open>
  C4 as it was stated, with every present entry taking precedence, fails on an empty
  entry. An entry that is the empty string is present in the message mapping and yet is not the
  message of the response: \<open>||\<close> takes the empty string for falsy and falls back to the
  derived default message. Here the overrides are \<open>{P2000: 400}\<close> and \<open>{P2000: ""}\<close>.
\<close>

theorem response_message_empty_entry_counterexample:
  "lit ''P2000'' \<in> dom (errorCodesStatusMapping
      (constructor None (Some [lit ''P2000'' \<mapsto> 400]) (Some [lit ''P2000'' \<mapsto> lit ''''])))
   \<and> errorCodesMessageMapping
        (constructor None (Some [lit ''P2000'' \<mapsto> 400]) (Some [lit ''P2000'' \<mapsto> lit '''']))
        (lit ''P2000'') = Some (lit '''')
   \<and> catch (constructor None (Some [lit ''P2000'' \<mapsto> 400]) (Some [lit ''P2000'' \<mapsto> lit '''']))
         \<lparr>code = lit ''P2000'',
          message = lit ''... '' @ [ARROW] @ lit '' '' @ [LF] @ lit ''  Some detail here'' @ [LF]\<rparr>
         \<lparr>getType = lit ''http''\<rparr> =
       \<lparr>constructed =
          [\<lparr>response = \<lparr>statusCode = Some 400, body_message = lit ''[P2000]: Some detail here''\<rparr>,
            status = Some 400\<rparr>],
        delegated =
          [(Transport
             \<lparr>response = \<lparr>statusCode = Some 400, body_message = lit ''[P2000]: Some detail here''\<rparr>,
              status = Some 400\<rparr>,
            \<lparr>getType = lit ''http''\<rparr>)],
        returned = ReturnSuper\<rparr>
   \<and> lit ''[P2000]: Some detail here'' \<noteq> lit ''''"
proof -
  let ?f = "constructor None (Some [lit ''P2000'' \<mapsto> 400]) (Some [lit ''P2000'' \<mapsto> lit ''''])"
  let ?e = "\<lparr>code = lit ''P2000'',
      message = lit ''... '' @ [ARROW] @ lit '' '' @ [LF] @ lit ''  Some detail here'' @ [LF]\<rparr>"
  let ?host = "\<lparr>getType = lit ''http''\<rparr>"
  have h: "getType ?host = lit ''http''"
    by simp
  have s: "errorCodesStatusMapping ?f (code ?e) = Some 400"
    by (simp add: constructor_status Object_assign_def)
  have m: "errorCodesMessageMapping ?f (code ?e) = Some (lit '''')"
    by (simp add: constructor_message Object_assign_def)
  have d: "defaultExceptionMessage ?e = lit ''[P2000]: Some detail here''"
    using default_message_example [of "lit ''P2000''"] by (simp add: lit_def)
  have l: "logical_or (Some (lit '''')) (lit ''[P2000]: Some detail here'') =
      lit ''[P2000]: Some detail here''"
    by (simp add: logical_or_def lit_def)
  have n: "lit ''[P2000]: Some detail here'' \<noteq> lit ''''"
    by (simp add: lit_def)
  have c: "catch ?f ?e ?host =
       \<lparr>constructed =
          [\<lparr>response = \<lparr>statusCode = Some 400, body_message = lit ''[P2000]: Some detail here''\<rparr>,
            status = Some 400\<rparr>],
        delegated =
          [(Transport
             \<lparr>response = \<lparr>statusCode = Some 400, body_message = lit ''[P2000]: Some detail here''\<rparr>,
              status = Some 400\<rparr>,
            ?host)],
        returned = ReturnSuper\<rparr>"
    unfolding catch_http_mapped [OF h s] m d l by (rule refl)
  from s m have "lit ''P2000'' \<in> dom (errorCodesStatusMapping ?f)"
    and "errorCodesMessageMapping ?f (lit ''P2000'') = Some (lit '''')"
    by (simp_all add: domIff)
  with c n show ?thesis
    by simp
qed

subsection \<open>The constructor\<close>

text \<open>
  C3. The mappings of a constructed filter are the defaults with the overrides merged on
  top: a key of an override has the override's value, every other key keeps its default,
  and without an override the defaults stand. With the status override \<open>{P2999: 418}\<close>
  the status mapping is P2000 to 400, P2002 to 409, P2025 to 404 and P2999 to 418.
\<close>

theorem constructor_merges_overrides:
  "(so = None \<longrightarrow>
      errorCodesStatusMapping (constructor ref so mo) = default_errorCodesStatusMapping)
   \<and> (so = Some m \<longrightarrow>
        (k \<in> dom m \<longrightarrow> errorCodesStatusMapping (constructor ref so mo) k = m k)
      \<and> (k \<notin> dom m \<longrightarrow>
           errorCodesStatusMapping (constructor ref so mo) k = default_errorCodesStatusMapping k))
   \<and> (mo = None \<longrightarrow>
        errorCodesMessageMapping (constructor ref so mo) = default_errorCodesMessageMapping)
   \<and> (mo = Some m' \<longrightarrow>
        (k \<in> dom m' \<longrightarrow> errorCodesMessageMapping (constructor ref so mo) k = m' k)
      \<and> (k \<notin> dom m' \<longrightarrow>
           errorCodesMessageMapping (constructor ref so mo) k = default_errorCodesMessageMapping k))
   \<and> errorCodesStatusMapping (constructor ref (Some [lit ''P2999'' \<mapsto> 418]) mo) =
       [lit ''P2000'' \<mapsto> 400, lit ''P2002'' \<mapsto> 409, lit ''P2025'' \<mapsto> 404,
        lit ''P2999'' \<mapsto> 418]"
proof -
  have ex: "Object_assign default_errorCodesStatusMapping [lit ''P2999'' \<mapsto> 418] =
      [lit ''P2000'' \<mapsto> 400, lit ''P2002'' \<mapsto> 409, lit ''P2025'' \<mapsto> 404,
       lit ''P2999'' \<mapsto> 418]"
    by (rule ext)
      (simp add: Object_assign_def default_errorCodesStatusMapping_def BAD_REQUEST_def
        CONFLICT_def NOT_FOUND_def)
  have st: "errorCodesStatusMapping (constructor ref (Some m) mo) k =
      (case m k of Some v \<Rightarrow> Some v | None \<Rightarrow> default_errorCodesStatusMapping k)"
    by (simp add: constructor_status Object_assign_def)
  have ms: "errorCodesMessageMapping (constructor ref so (Some m')) k =
      (case m' k of Some v \<Rightarrow> Some v | None \<Rightarrow> default_errorCodesMessageMapping k)"
    by (simp add: constructor_message Object_assign_def)
  have "errorCodesStatusMapping (constructor ref (Some [lit ''P2999'' \<mapsto> 418]) mo) =
      [lit ''P2000'' \<mapsto> 400, lit ''P2002'' \<mapsto> 409, lit ''P2025'' \<mapsto> 404,
       lit ''P2999'' \<mapsto> 418]"
    by (simp add: constructor_status ex)
  moreover have "so = None \<longrightarrow>
      errorCodesStatusMapping (constructor ref so mo) = default_errorCodesStatusMapping"
    by (simp add: constructor_status)
  moreover have "mo = None \<longrightarrow>
      errorCodesMessageMapping (constructor ref so mo) = default_errorCodesMessageMapping"
    by (simp add: constructor_message)
  moreover have "so = Some m \<longrightarrow>
        (k \<in> dom m \<longrightarrow> errorCodesStatusMapping (constructor ref so mo) k = m k)
      \<and> (k \<notin> dom m \<longrightarrow>
           errorCodesStatusMapping (constructor ref so mo) k = default_errorCodesStatusMapping k)"
    by (auto simp: st domIff)
  moreover have "mo = Some m' \<longrightarrow>
        (k \<in> dom m' \<longrightarrow> errorCodesMessageMapping (constructor ref so mo) k = m' k)
      \<and> (k \<notin> dom m' \<longrightarrow>
           errorCodesMessageMapping (constructor ref so mo) k = default_errorCodesMessageMapping k)"
    by (auto simp: ms domIff)
  ultimately show ?thesis
    by blast
qed

theorem constructor_merges_overrides_witness:
  "lit ''P2002'' \<in> dom [lit ''P2002'' \<mapsto> 422 :: int, lit ''P2003'' \<mapsto> 400]
   \<and> errorCodesStatusMapping
         (constructor None
            (Some [lit ''P2002'' \<mapsto> 422, lit ''P2003'' \<mapsto> 400]) None) (lit ''P2002'')
       = Some 422
   \<and> lit ''P2025'' \<notin> dom [lit ''P2002'' \<mapsto> 422 :: int, lit ''P2003'' \<mapsto> 400]
   \<and> errorCodesStatusMapping
         (constructor None
            (Some [lit ''P2002'' \<mapsto> 422, lit ''P2003'' \<mapsto> 400]) None) (lit ''P2025'')
       = Some 404
   \<and> errorCodesMessageMapping
         (constructor None
            (Some [lit ''P2002'' \<mapsto> 422, lit ''P2003'' \<mapsto> 400]) None)
       = Map.empty"
proof -
  let ?m = "[lit ''P2002'' \<mapsto> 422 :: int, lit ''P2003'' \<mapsto> 400]"
  have i: "lit ''P2002'' \<in> dom ?m"
    by simp
  have o: "lit ''P2025'' \<notin> dom ?m"
    by (simp add: lit_def)
  note w = constructor_merges_overrides [where so = "Some ?m" and m = ?m
      and ref = None and mo = None]
  from i o w [where k = "lit ''P2002''"] w [where k = "lit ''P2025''"] show ?thesis
    by (simp add: default_errorCodesStatusMapping_def BAD_REQUEST_def CONFLICT_def
        NOT_FOUND_def default_errorCodesMessageMapping_def lit_def)
qed

subsection \<open>The client wrapper\<close>

text \<open>
  C8. The wrapper constructed with a client handle exposes exactly that handle in its
  field \<open>client\<close>.
\<close>

theorem CustomPrismaService_client: "client (new_CustomPrismaService H) = H"
  by (simp add: new_CustomPrismaService_def)

end
